theory Spec2Isabelle
  imports Main "HOL-Library.Word"
begin

section \<open>The capture flow of \<^verbatim>\<open>src/pages/camera.tsx\<close>\<close>

text \<open>
  The component \<^verbatim>\<open>Camera\<close> keeps six \<^verbatim>\<open>useState\<close> cells and two refs, and talks to
  three collaborators: the browser (camera streams, the canvas, \<^verbatim>\<open>atob\<close>), the console
  and the storage client. The model below keeps the state cells in a record
  \<open>capture_session\<close>, the rest of what the handlers read and write in a record \<open>world\<close>,
  and takes the browser and storage functions as an \<open>env\<close> of parameters.

  JavaScript strings are modelled as \<open>string\<close>: the data URLs, file names and paths the
  component handles are ASCII. A JavaScript exception is a value of type \<open>exn\<close>.
\<close>

subsection \<open>Data\<close>

datatype app_state = Camera | Preview | Processing

datatype exn =
    TypeError
  | InvalidCharacterError
  | StorageError string
  | NotAllowedError

record capture_session =
  appState :: app_state
  capturedImage :: "string option"
  selectedFilter :: "int option"
  processedImage :: "string option"
  isUploading :: bool
  error :: "string option"

text \<open>A \<^verbatim>\<open>MediaStream\<close>: its tracks (by identifier) and the frames it delivers.\<close>

record media_stream =
  tracks :: "nat list"
  width :: nat
  height :: nat
  frame :: "nat list"

record video_element =
  srcObject :: "media_stream option"

record canvas_element =
  cwidth :: nat
  cheight :: nat
  pixels :: "nat list"
  context2d :: bool

text \<open>The \<^verbatim>\<open>File\<close> built by \<^verbatim>\<open>dataURLtoFile\<close>: the arguments of the constructor.\<close>

record js_file =
  name :: string
  bytes :: "8 word list"
  ftype :: "string option"

record upload_request =
  bucket :: string
  path :: string
  payload :: js_file
  contentType :: string
  cacheControl :: string

text \<open>
  What \<^verbatim>\<open>await supabase.storage.from(..).upload(..)\<close> can do: resolve to
  \<^verbatim>\<open>{data, error: null}\<close>, resolve to \<^verbatim>\<open>{error}\<close>, or reject.
\<close>

datatype upload_outcome = UploadOk | UploadError exn | UploadRejected exn

record world =
  session :: capture_session
  videoRef :: "video_element option"
  canvasRef :: "canvas_element option"
  console :: "(string \<times> exn) list"
  uploads :: "upload_request list"
  inflight :: "upload_request list"
  cameraRequests :: nat
  acquired :: "media_stream list"
  stopped :: "nat set"

text \<open>
  The collaborators that are not code of the component: \<open>atob\<close> (\<open>None\<close> when it throws
  \<^verbatim>\<open>InvalidCharacterError\<close>), \<^verbatim>\<open>canvas.toDataURL("image/png")\<close>, the storage client's
  \<^verbatim>\<open>getPublicUrl\<close> for a bucket and a path, and the constant \<^verbatim>\<open>BUCKET_ID\<close> of
  \<^verbatim>\<open>lib/supabase\<close>.
\<close>

record env =
  atob :: "string \<Rightarrow> string option"
  toDataURL :: "canvas_element \<Rightarrow> string"
  getPublicUrl :: "string \<Rightarrow> string \<Rightarrow> exn + string"
  BUCKET_ID :: string

subsection \<open>The state setters\<close>

definition setAppState :: "app_state \<Rightarrow> world \<Rightarrow> world" where
  "setAppState v w = w\<lparr>session := (session w)\<lparr>appState := v\<rparr>\<rparr>"

definition setCapturedImage :: "string option \<Rightarrow> world \<Rightarrow> world" where
  "setCapturedImage v w = w\<lparr>session := (session w)\<lparr>capturedImage := v\<rparr>\<rparr>"

definition setSelectedFilter :: "int option \<Rightarrow> world \<Rightarrow> world" where
  "setSelectedFilter v w = w\<lparr>session := (session w)\<lparr>selectedFilter := v\<rparr>\<rparr>"

definition setProcessedImage :: "string option \<Rightarrow> world \<Rightarrow> world" where
  "setProcessedImage v w = w\<lparr>session := (session w)\<lparr>processedImage := v\<rparr>\<rparr>"

definition setIsUploading :: "bool \<Rightarrow> world \<Rightarrow> world" where
  "setIsUploading v w = w\<lparr>session := (session w)\<lparr>isUploading := v\<rparr>\<rparr>"

definition setError :: "string option \<Rightarrow> world \<Rightarrow> world" where
  "setError v w = w\<lparr>session := (session w)\<lparr>error := v\<rparr>\<rparr>"

definition console_error :: "string \<Rightarrow> exn \<Rightarrow> world \<Rightarrow> world" where
  "console_error msg err w = w\<lparr>console := console w @ [(msg, err)]\<rparr>"

subsection \<open>\<^verbatim>\<open>dataURLtoFile\<close>\<close>

text \<open>\<^verbatim>\<open>s.split(",")\<close>: the pieces between the commas, never an empty array.\<close>

fun split_on :: "char \<Rightarrow> string \<Rightarrow> string list" where
  "split_on c [] = [[]]"
| "split_on c (x # xs) =
     (if x = c then [] # split_on c xs
      else (let r = split_on c xs in (x # hd r) # tl r))"

text \<open>
  \<^verbatim>\<open>s.match(/:(.*?);/)?.[1]\<close>: from the leftmost colon after which a semicolon comes
  before any line terminator, the text between that colon and the first semicolon after
  it; \<open>None\<close> (\<^verbatim>\<open>undefined\<close>) when there is no match.
\<close>

definition line_terminator :: "char \<Rightarrow> bool" where
  "line_terminator c = (c = CHR 0x0A \<or> c = CHR 0x0D)"

fun lazy_until_semicolon :: "string \<Rightarrow> string option" where
  "lazy_until_semicolon [] = None"
| "lazy_until_semicolon (x # xs) =
     (if x = CHR '';'' then Some []
      else if line_terminator x then None
      else map_option (Cons x) (lazy_until_semicolon xs))"

fun match_mime :: "string \<Rightarrow> string option" where
  "match_mime [] = None"
| "match_mime (x # xs) =
     (if x = CHR '':'' then
        (case lazy_until_semicolon xs of
           Some m \<Rightarrow> Some m
         | None \<Rightarrow> match_mime xs)
      else match_mime xs)"

text \<open>
  The loop \<^verbatim>\<open>while (n--) u8arr[n] = bstr.charCodeAt(n)\<close>, from \<open>n\<close> down to zero; a
  \<^verbatim>\<open>Uint8Array\<close> cell keeps the code modulo 256.
\<close>

fun fill_u8 :: "nat \<Rightarrow> string \<Rightarrow> 8 word list \<Rightarrow> 8 word list" where
  "fill_u8 0 bstr u8arr = u8arr"
| "fill_u8 (Suc n) bstr u8arr = fill_u8 n bstr (u8arr[n := of_char (bstr ! n)])"

definition dataURLtoFile ::
  "(string \<Rightarrow> string option) \<Rightarrow> string option \<Rightarrow> string \<Rightarrow> exn + js_file" where
  "dataURLtoFile atob_fn dataurl filename =
     (case dataurl of
        None \<Rightarrow> Inl TypeError
      | Some d \<Rightarrow>
          (let arr = split_on CHR '','' d;
               mime = match_mime (hd arr);
               arg = (case tl arr of [] \<Rightarrow> ''undefined'' | a # _ \<Rightarrow> a)
           in case atob_fn arg of
                None \<Rightarrow> Inl InvalidCharacterError
              | Some bstr \<Rightarrow>
                  (let n = length bstr;
                       u8arr = fill_u8 n bstr (replicate n 0)
                   in Inr \<lparr>name = filename, bytes = u8arr, ftype = mime\<rparr>)))"

text \<open>The decimal text of a number, as a template literal prints it.\<close>

fun show_nat :: "nat \<Rightarrow> string" where
  "show_nat n =
     (if n < 10 then [''0123456789'' ! n]
      else show_nat (n div 10) @ [''0123456789'' ! (n mod 10)])"

definition show_int :: "int \<Rightarrow> string" where
  "show_int i = (if i < 0 then CHR ''-'' # show_nat (nat (- i)) else show_nat (nat i))"

subsection \<open>\<^verbatim>\<open>takePicture\<close> and \<^verbatim>\<open>retakePicture\<close>\<close>

text \<open>
  \<^verbatim>\<open>video.videoWidth\<close> and \<^verbatim>\<open>video.videoHeight\<close> are the dimensions of the stream
  bound to the element, and zero when none is bound. \<^verbatim>\<open>drawImage\<close> is called with the
  canvas's own size, which \<^verbatim>\<open>takePicture\<close> has just set to the stream's: the frame is
  copied as it is; with no stream bound nothing is drawn.
\<close>

definition videoWidth :: "video_element \<Rightarrow> nat" where
  "videoWidth video = (case srcObject video of None \<Rightarrow> 0 | Some stream \<Rightarrow> width stream)"

definition videoHeight :: "video_element \<Rightarrow> nat" where
  "videoHeight video = (case srcObject video of None \<Rightarrow> 0 | Some stream \<Rightarrow> height stream)"

definition drawImage :: "video_element \<Rightarrow> canvas_element \<Rightarrow> canvas_element" where
  "drawImage video canvas =
     (case srcObject video of
        None \<Rightarrow> canvas
      | Some stream \<Rightarrow> canvas\<lparr>pixels := frame stream\<rparr>)"

definition takePicture :: "env \<Rightarrow> world \<Rightarrow> world" where
  "takePicture e w =
     (case videoRef w of
        None \<Rightarrow> w
      | Some video \<Rightarrow>
          (case canvasRef w of
             None \<Rightarrow> w
           | Some canvas0 \<Rightarrow>
               (let canvas = canvas0\<lparr>cwidth := videoWidth video,
                                     cheight := videoHeight video,
                                     pixels := []\<rparr>
                in if context2d canvas then
                     (let drawn = drawImage video canvas;
                          imageDataUrl = toDataURL e drawn
                      in setAppState Preview
                           (setCapturedImage (Some imageDataUrl)
                              (w\<lparr>canvasRef := Some drawn\<rparr>)))
                   else w\<lparr>canvasRef := Some canvas\<rparr>)))"

definition retakePicture :: "world \<Rightarrow> world" where
  "retakePicture w =
     setAppState Camera (setSelectedFilter None (setCapturedImage None w))"

subsection \<open>\<^verbatim>\<open>applyFilter\<close>\<close>

text \<open>
  The promise an \<^verbatim>\<open>async\<close> function returns is fulfilled, or rejected with the exception
  that left the function; either way the world is the one the function left behind.
\<close>

datatype promise = Fulfilled world | Rejected exn world

fun promise_world :: "promise \<Rightarrow> world" where
  "promise_world (Fulfilled w) = w"
| "promise_world (Rejected err w) = w"

definition failure_message :: string where
  "failure_message = ''Failed to upload image. Please try again.''"

text \<open>The \<^verbatim>\<open>catch\<close> block.\<close>

definition applyFilter_catch :: "exn \<Rightarrow> world \<Rightarrow> world" where
  "applyFilter_catch err w =
     setAppState Preview
       (setIsUploading False
          (setError (Some failure_message)
             (console_error ''Error uploading image:'' err w)))"

text \<open>
  The \<^verbatim>\<open>try\<close> block up to the \<^verbatim>\<open>await\<close>: decode \<^verbatim>\<open>capturedImage\<close> (the value the
  handler closed over) and build the call to \<^verbatim>\<open>upload\<close>.
\<close>

definition applyFilter_try_upload :: "env \<Rightarrow> int \<Rightarrow> string option \<Rightarrow> exn + upload_request" where
  "applyFilter_try_upload e now captured =
     (case dataURLtoFile (atob e) captured (''photo-'' @ show_int now @ ''.png'') of
        Inl err \<Rightarrow> Inl err
      | Inr imageFile \<Rightarrow>
          Inr \<lparr>bucket = BUCKET_ID e,
               path = ''originals/'' @ name imageFile,
               payload = imageFile,
               contentType = ''image/png'',
               cacheControl = ''3600''\<rparr>)"

text \<open>The \<^verbatim>\<open>try\<close> block after the \<^verbatim>\<open>await\<close>.\<close>

definition applyFilter_try_result ::
  "env \<Rightarrow> js_file \<Rightarrow> upload_outcome \<Rightarrow> world \<Rightarrow> exn + world" where
  "applyFilter_try_result e imageFile outcome w =
     (case outcome of
        UploadRejected err \<Rightarrow> Inl err
      | UploadError uploadError \<Rightarrow> Inl uploadError
      | UploadOk \<Rightarrow>
          (case getPublicUrl e (BUCKET_ID e) (''originals/'' @ name imageFile) of
             Inl err \<Rightarrow> Inl err
           | Inr publicUrl \<Rightarrow>
               Inr (setIsUploading False (setProcessedImage (Some publicUrl) w))))"

text \<open>
  \<^verbatim>\<open>applyFilter\<close> in its two runs: from the click to the \<^verbatim>\<open>await\<close>, and from the
  settling of the upload to the end.
\<close>

datatype progress = Done promise | Awaiting world upload_request

definition applyFilter_begin :: "env \<Rightarrow> int \<Rightarrow> int \<Rightarrow> world \<Rightarrow> progress" where
  "applyFilter_begin e filterId now w =
     (let w1 = setError None (setAppState Processing (setSelectedFilter (Some filterId) w));
          w2 = setIsUploading True w1
      in case applyFilter_try_upload e now (capturedImage (session w)) of
           Inl err \<Rightarrow> Done (Fulfilled (applyFilter_catch err w2))
         | Inr req \<Rightarrow> Awaiting (w2\<lparr>uploads := uploads w2 @ [req]\<rparr>) req)"

definition applyFilter_resume ::
  "env \<Rightarrow> upload_request \<Rightarrow> upload_outcome \<Rightarrow> world \<Rightarrow> promise" where
  "applyFilter_resume e req outcome w =
     (case applyFilter_try_result e (payload req) outcome w of
        Inl err \<Rightarrow> Fulfilled (applyFilter_catch err w)
      | Inr w' \<Rightarrow> Fulfilled w')"

text \<open>A run of \<^verbatim>\<open>applyFilter\<close> that nothing interleaves with.\<close>

definition applyFilter :: "env \<Rightarrow> int \<Rightarrow> int \<Rightarrow> upload_outcome \<Rightarrow> world \<Rightarrow> promise" where
  "applyFilter e filterId now outcome w =
     (case applyFilter_begin e filterId now w of
        Done p \<Rightarrow> p
      | Awaiting w' req \<Rightarrow> applyFilter_resume e req outcome w')"

subsection \<open>The camera effect\<close>

text \<open>
  The effect calls \<^verbatim>\<open>startCamera\<close> without awaiting it: \<open>cameraEffect\<close> is the call up to
  \<^verbatim>\<open>await getUserMedia\<close>, \<open>startCamera_resume\<close> the rest, run when the browser settles
  the request. \<open>acquired\<close> lists the streams the browser has handed out and \<open>stopped\<close>
  the tracks on which \<^verbatim>\<open>stop()\<close> was called.
\<close>

definition cameraEffect :: "world \<Rightarrow> world" where
  "cameraEffect w =
     (if appState (session w) = Camera
      then w\<lparr>cameraRequests := cameraRequests w + 1\<rparr>
      else w)"

definition startCamera_resume :: "exn + media_stream \<Rightarrow> world \<Rightarrow> world" where
  "startCamera_resume r w =
     (case r of
        Inr stream \<Rightarrow>
          (let w1 = w\<lparr>acquired := acquired w @ [stream]\<rparr>
           in case videoRef w1 of
                Some video \<Rightarrow> w1\<lparr>videoRef := Some (video\<lparr>srcObject := Some stream\<rparr>)\<rparr>
              | None \<Rightarrow> w1)
      | Inl err \<Rightarrow> console_error ''Error accessing camera:'' err w)"

definition stop_track :: "nat \<Rightarrow> world \<Rightarrow> world" where
  "stop_track t w = w\<lparr>stopped := insert t (stopped w)\<rparr>"

definition cameraCleanup :: "world \<Rightarrow> world" where
  "cameraCleanup w =
     (case videoRef w of
        None \<Rightarrow> w
      | Some video \<Rightarrow>
          (case srcObject video of
             None \<Rightarrow> w
           | Some stream \<Rightarrow> fold stop_track (tracks stream) w))"

definition live_tracks :: "world \<Rightarrow> nat list" where
  "live_tracks w = filter (\<lambda>t. t \<notin> stopped w) (concat (map tracks (acquired w)))"

subsection \<open>What is on screen\<close>

datatype view =
    CameraView
  | PreviewView string
  | ErrorView string
  | SpinnerView string
  | ResultView string
  | EmptyView

definition render_processing :: "capture_session \<Rightarrow> view" where
  "render_processing s =
     (let spinner = SpinnerView (if isUploading s then ''Uploading image...''
                                 else ''Applying artistic style...'')
      in case processedImage s of
           None \<Rightarrow> spinner
         | Some url \<Rightarrow> if url = [] then spinner else ResultView url)"

definition render :: "capture_session \<Rightarrow> view" where
  "render s =
     (case appState s of
        Camera \<Rightarrow> CameraView
      | Preview \<Rightarrow>
          (case capturedImage s of
             None \<Rightarrow> EmptyView
           | Some img \<Rightarrow> if img = [] then EmptyView else PreviewView img)
      | Processing \<Rightarrow>
          (case error s of
             None \<Rightarrow> render_processing s
           | Some msg \<Rightarrow> if msg = [] then render_processing s else ErrorView msg))"

subsection \<open>Events\<close>

text \<open>
  A click reaches its handler only when the control is on screen. The other events are
  the browser's and the framework's: the storage client settles an upload, the browser
  settles a camera request, React attaches an element to a ref or detaches it, runs the
  effect or its cleanup. \<open>step\<close> is \<open>None\<close> for an event that cannot happen.
\<close>

datatype event =
    Click_Shutter
  | Click_Retake
  | Click_Filter int int
  | Click_TryAgain
  | Click_TakeNewPhoto
  | Click_Download
  | Upload_Settles nat upload_outcome
  | Camera_Settles "exn + media_stream"
  | Mount_Video
  | Unmount_Video
  | Mount_Canvas bool
  | Effect_Run
  | Effect_Cleanup

text \<open>The ids of the catalogue \<^verbatim>\<open>filterImages\<close>, one filter tile each.\<close>

definition filterImages :: "int list" where
  "filterImages = [1, 2, 3, 4]"

definition click_filter :: "env \<Rightarrow> int \<Rightarrow> int \<Rightarrow> world \<Rightarrow> world" where
  "click_filter e filterId now w =
     (case applyFilter_begin e filterId now w of
        Done p \<Rightarrow> promise_world p
      | Awaiting w' req \<Rightarrow> w'\<lparr>inflight := inflight w' @ [req]\<rparr>)"

definition upload_settles :: "env \<Rightarrow> nat \<Rightarrow> upload_outcome \<Rightarrow> world \<Rightarrow> world" where
  "upload_settles e k outcome w =
     promise_world
       (applyFilter_resume e (inflight w ! k) outcome
          (w\<lparr>inflight := take k (inflight w) @ drop (Suc k) (inflight w)\<rparr>))"

fun step :: "env \<Rightarrow> event \<Rightarrow> world \<Rightarrow> world option" where
  "step e Click_Shutter w =
     (case render (session w) of CameraView \<Rightarrow> Some (takePicture e w) | _ \<Rightarrow> None)"
| "step e Click_Retake w =
     (case render (session w) of PreviewView img \<Rightarrow> Some (retakePicture w) | _ \<Rightarrow> None)"
| "step e (Click_Filter filterId now) w =
     (case render (session w) of
        PreviewView img \<Rightarrow>
          if filterId \<in> set filterImages then Some (click_filter e filterId now w) else None
      | _ \<Rightarrow> None)"
| "step e Click_TryAgain w =
     (case render (session w) of ErrorView msg \<Rightarrow> Some (setAppState Preview w) | _ \<Rightarrow> None)"
| "step e Click_TakeNewPhoto w =
     (case render (session w) of ResultView url \<Rightarrow> Some (retakePicture w) | _ \<Rightarrow> None)"
| "step e Click_Download w =
     (case render (session w) of ResultView url \<Rightarrow> Some w | _ \<Rightarrow> None)"
| "step e (Upload_Settles k outcome) w =
     (if k < length (inflight w) then Some (upload_settles e k outcome w) else None)"
| "step e (Camera_Settles r) w =
     (if 0 < cameraRequests w
      then Some (startCamera_resume r (w\<lparr>cameraRequests := cameraRequests w - 1\<rparr>))
      else None)"
| "step e Mount_Video w = Some (w\<lparr>videoRef := Some \<lparr>srcObject = None\<rparr>\<rparr>)"
| "step e Unmount_Video w = Some (w\<lparr>videoRef := None\<rparr>)"
| "step e (Mount_Canvas ctx) w =
     Some (w\<lparr>canvasRef := Some \<lparr>cwidth = 300, cheight = 150, pixels = [], context2d = ctx\<rparr>\<rparr>)"
| "step e Effect_Run w = Some (cameraEffect w)"
| "step e Effect_Cleanup w = Some (cameraCleanup w)"

fun run :: "env \<Rightarrow> event list \<Rightarrow> world \<Rightarrow> world option" where
  "run e [] w = Some w"
| "run e (ev # evs) w = (case step e ev w of None \<Rightarrow> None | Some w' \<Rightarrow> run e evs w')"

definition initial_session :: capture_session where
  "initial_session =
     \<lparr>appState = Camera, capturedImage = None, selectedFilter = None,
      processedImage = None, isUploading = False, error = None\<rparr>"

definition initial_world :: world where
  "initial_world =
     \<lparr>session = initial_session, videoRef = None, canvasRef = None, console = [],
      uploads = [], inflight = [], cameraRequests = 0, acquired = [], stopped = {}\<rparr>"

text \<open>
  The exception the \<^verbatim>\<open>try\<close> block of \<^verbatim>\<open>applyFilter\<close> raises in a run, if it raises
  one: in decoding, from the upload, or in resolving the public URL.
\<close>

definition applyFilter_raises :: "env \<Rightarrow> int \<Rightarrow> upload_outcome \<Rightarrow> world \<Rightarrow> exn option" where
  "applyFilter_raises e now outcome w =
     (case applyFilter_try_upload e now (capturedImage (session w)) of
        Inl err \<Rightarrow> Some err
      | Inr req \<Rightarrow>
          (case applyFilter_try_result e (payload req) outcome w of
             Inl err \<Rightarrow> Some err
           | Inr w' \<Rightarrow> None))"

subsection \<open>A concrete environment and two sessions\<close>

text \<open>
  A stand-in browser and storage client for evaluating the model: \<open>atob\<close> rejects the
  text \<^verbatim>\<open>undefined\<close> and returns any other text as it is, \<open>toDataURL\<close> gives
  \<^verbatim>\<open>data:,\<close> for an empty canvas and a PNG data URL otherwise, and the public URL of a
  path is the path under the bucket's address.
\<close>

definition demo_env :: env where
  "demo_env =
     \<lparr>atob = (\<lambda>s. if s = ''undefined'' then None else Some s),
      toDataURL = (\<lambda>c. if cwidth c = 0 \<or> cheight c = 0 then ''data:,''
                        else ''data:image/png;base64,iVBORw0KGgo=''),
      getPublicUrl = (\<lambda>b p. Inr (''https://cdn.example/'' @ b @ ''/'' @ p)),
      BUCKET_ID = ''photos''\<rparr>"

definition demo_stream :: media_stream where
  "demo_stream = \<lparr>tracks = [7], width = 640, height = 480, frame = [1, 2, 3]\<rparr>"

definition second_stream :: media_stream where
  "second_stream = \<lparr>tracks = [8], width = 640, height = 480, frame = [4, 5, 6]\<rparr>"

text \<open>
  A first photo is taken and uploaded; then the user asks for a new photo from the
  result screen.
\<close>

definition first_upload_done :: "event list" where
  "first_upload_done =
     [Mount_Canvas True, Mount_Video, Effect_Run, Camera_Settles (Inr demo_stream),
      Click_Shutter, Unmount_Video, Effect_Cleanup,
      Click_Filter 1 5, Upload_Settles 0 UploadOk]"

definition first_photo_done :: "event list" where
  "first_photo_done = first_upload_done @ [Click_TakeNewPhoto]"

text \<open>The calls to \<^verbatim>\<open>upload\<close> for the first and the second photo.\<close>

definition first_request :: upload_request where
  "first_request =
     \<lparr>bucket = ''photos'', path = ''originals/photo-5.png'',
      payload = \<lparr>name = ''photo-5.png'',
                 bytes = map of_char ''iVBORw0KGgo='',
                 ftype = Some ''image/png''\<rparr>,
      contentType = ''image/png'', cacheControl = ''3600''\<rparr>"

definition second_request :: upload_request where
  "second_request =
     \<lparr>bucket = ''photos'', path = ''originals/photo-6.png'',
      payload = \<lparr>name = ''photo-6.png'',
                 bytes = map of_char ''iVBORw0KGgo='',
                 ftype = Some ''image/png''\<rparr>,
      contentType = ''image/png'', cacheControl = ''3600''\<rparr>"

text \<open>Then a second photo is taken: the session is in Preview again.\<close>

definition second_photo_taken :: "event list" where
  "second_photo_taken =
     first_photo_done @
     [Mount_Video, Effect_Run, Camera_Settles (Inr second_stream),
      Click_Shutter, Unmount_Video, Effect_Cleanup]"

definition second_preview :: world where
  "second_preview =
     \<lparr>session =
        \<lparr>appState = Preview,
         capturedImage = Some ''data:image/png;base64,iVBORw0KGgo='',
         selectedFilter = None,
         processedImage = Some ''https://cdn.example/photos/originals/photo-5.png'',
         isUploading = False,
         error = None\<rparr>,
      videoRef = None,
      canvasRef = Some \<lparr>cwidth = 640, cheight = 480, pixels = [4, 5, 6], context2d = True\<rparr>,
      console = [],
      uploads = [first_request],
      inflight = [],
      cameraRequests = 0,
      acquired = [demo_stream, second_stream],
      stopped = {}\<rparr>"

text \<open>
  The shutter is pressed while the camera request is still pending (the permission
  prompt is open), and the browser hands the stream out afterwards.
\<close>

definition early_shutter :: "event list" where
  "early_shutter =
     [Mount_Canvas True, Mount_Video, Effect_Run,
      Click_Shutter, Unmount_Video, Effect_Cleanup,
      Camera_Settles (Inr demo_stream)]"

text \<open>The component is mounted, unmounted and mounted again before either request settles.\<close>

definition remount :: "event list" where
  "remount =
     [Mount_Canvas True, Mount_Video, Effect_Run,
      Effect_Cleanup, Unmount_Video,
      Mount_Video, Effect_Run,
      Camera_Settles (Inr demo_stream), Camera_Settles (Inr second_stream)]"

text \<open>
  The world once the camera stream is bound to the mounted video element, and the world
  after the first press of the shutter there.
\<close>

definition camera_ready :: world where
  "camera_ready =
     \<lparr>session = initial_session,
      videoRef = Some \<lparr>srcObject = Some demo_stream\<rparr>,
      canvasRef = Some \<lparr>cwidth = 300, cheight = 150, pixels = [], context2d = True\<rparr>,
      console = [], uploads = [], inflight = [], cameraRequests = 0,
      acquired = [demo_stream], stopped = {}\<rparr>"

definition no_context :: world where
  "no_context =
     camera_ready\<lparr>canvasRef :=
       Some \<lparr>cwidth = 300, cheight = 150, pixels = [], context2d = False\<rparr>\<rparr>"

definition first_preview :: world where
  "first_preview =
     \<lparr>session =
        \<lparr>appState = Preview,
         capturedImage = Some ''data:image/png;base64,iVBORw0KGgo='',
         selectedFilter = None,
         processedImage = None,
         isUploading = False,
         error = None\<rparr>,
      videoRef = None,
      canvasRef = Some \<lparr>cwidth = 640, cheight = 480, pixels = [1, 2, 3], context2d = True\<rparr>,
      console = [], uploads = [], inflight = [], cameraRequests = 0,
      acquired = [demo_stream], stopped = {}\<rparr>"

text \<open>The worlds in which those calls are made.\<close>

definition first_awaiting :: world where
  "first_awaiting =
     first_preview
       \<lparr>session := (session first_preview)
          \<lparr>appState := Processing, selectedFilter := Some 1, isUploading := True\<rparr>,
        uploads := [first_request]\<rparr>"

definition second_awaiting :: world where
  "second_awaiting =
     second_preview
       \<lparr>session := (session second_preview)
          \<lparr>appState := Processing, selectedFilter := Some 2, isUploading := True\<rparr>,
        uploads := [first_request, second_request]\<rparr>"

text \<open>The world when the first upload has succeeded.\<close>

definition first_result :: world where
  "first_result =
     first_preview
       \<lparr>session := (session first_preview)
          \<lparr>appState := Processing, selectedFilter := Some 1,
           processedImage := Some ''https://cdn.example/photos/originals/photo-5.png''\<rparr>,
        uploads := [first_request]\<rparr>"

text \<open>
  The camera request is still pending: the video element is mounted and no stream is
  bound to it.
\<close>

definition camera_pending :: world where
  "camera_pending =
     \<lparr>session = initial_session,
      videoRef = Some \<lparr>srcObject = None\<rparr>,
      canvasRef = Some \<lparr>cwidth = 300, cheight = 150, pixels = [], context2d = True\<rparr>,
      console = [], uploads = [], inflight = [], cameraRequests = 1,
      acquired = [], stopped = {}\<rparr>"

text \<open>
  While the upload of the second photo is pending the screen shows the result of the
  first, with its controls. The user asks for a new photo, takes a third one and picks a
  filter; the upload of the third photo fails, and only then does the upload of the
  second photo succeed.
\<close>

definition second_upload_pending :: "event list" where
  "second_upload_pending =
     second_photo_taken @
     [Click_Filter 2 6, Click_TakeNewPhoto,
      Mount_Video, Effect_Run, Camera_Settles (Inr demo_stream),
      Click_Shutter, Unmount_Video, Effect_Cleanup,
      Click_Filter 3 7, Upload_Settles 1 (UploadError (StorageError ''quota''))]"

definition second_upload_late :: "event list" where
  "second_upload_late = second_upload_pending @ [Upload_Settles 0 UploadOk]"

text \<open>
  The condition that links the result to the screen it is shown on, and to the uploads
  still in flight.
\<close>

definition result_fresh :: "world \<Rightarrow> bool" where
  "result_fresh w =
     ((processedImage (session w) = None \<or>
        (appState (session w) = Processing \<and> error (session w) = None \<and> inflight w = [])) \<and>
      (inflight w = [] \<or>
        (appState (session w) = Processing \<and> error (session w) = None \<and>
         length (inflight w) = 1)))"

section \<open>Properties\<close>

lemmas setter_defs =
  setAppState_def setCapturedImage_def setSelectedFilter_def setProcessedImage_def
  setIsUploading_def setError_def console_error_def

declare show_nat.simps [simp del]

subsection \<open>Decoding\<close>

lemma split_on_nonempty: "split_on c s \<noteq> []"
  by (induction s) (auto simp: Let_def)

text \<open>The loop of \<^verbatim>\<open>dataURLtoFile\<close> writes the code of every character, in order.\<close>

lemma fill_u8_take:
  "n \<le> length bstr \<Longrightarrow> length u8arr = length bstr \<Longrightarrow>
   fill_u8 n bstr u8arr = map of_char (take n bstr) @ drop n u8arr"
proof (induction n arbitrary: u8arr)
  case 0
  then show ?case by simp
next
  case (Suc n)
  then have "fill_u8 (Suc n) bstr u8arr =
      map of_char (take n bstr) @ drop n (u8arr[n := of_char (bstr ! n)])"
    by simp
  also have "drop n (u8arr[n := of_char (bstr ! n)]) = of_char (bstr ! n) # drop (Suc n) u8arr"
    using Suc.prems
    by (simp add: Cons_nth_drop_Suc[symmetric] upd_conv_take_nth_drop)
  finally show ?case
    using Suc.prems by (simp add: take_Suc_conv_app_nth)
qed

lemma fill_u8_all: "fill_u8 (length bstr) bstr (replicate (length bstr) 0) = map of_char bstr"
  by (simp add: fill_u8_take)

lemma dataURLtoFile_Inr:
  assumes "dataURLtoFile atob_fn dataurl filename = Inr f"
  shows "name f = filename \<and>
         (\<exists>d bstr. dataurl = Some d \<and> bytes f = map of_char bstr \<and>
                   ftype f = match_mime (hd (split_on CHR '','' d)))"
  using assms
  by (auto simp: dataURLtoFile_def Let_def fill_u8_all split: option.splits)

lemma session_catch:
  "session (applyFilter_catch err w) =
     (session w)\<lparr>error := Some failure_message, isUploading := False, appState := Preview\<rparr>"
  by (simp add: applyFilter_catch_def setter_defs)

lemma dataURLtoFile_Some:
  "dataURLtoFile atob_fn (Some d) filename =
     (case atob_fn (case tl (split_on CHR '','' d) of [] \<Rightarrow> ''undefined'' | a # _ \<Rightarrow> a) of
        None \<Rightarrow> Inl InvalidCharacterError
      | Some bstr \<Rightarrow>
          Inr \<lparr>name = filename, bytes = map of_char bstr,
               ftype = match_mime (hd (split_on CHR '','' d))\<rparr>)"
  by (simp add: dataURLtoFile_def Let_def fill_u8_all split: option.splits)

lemma dataURLtoFile_None: "dataURLtoFile atob_fn None filename = Inl TypeError"
  by (simp add: dataURLtoFile_def)

subsection \<open>Evaluating the concrete sessions\<close>

lemmas eval_defs =
  click_filter_def upload_settles_def applyFilter_def applyFilter_begin_def
  applyFilter_resume_def applyFilter_try_upload_def applyFilter_try_result_def
  applyFilter_catch_def applyFilter_raises_def dataURLtoFile_Some dataURLtoFile_None
  takePicture_def retakePicture_def videoWidth_def videoHeight_def drawImage_def
  cameraEffect_def cameraCleanup_def startCamera_resume_def stop_track_def
  render_def render_processing_def filterImages_def setter_defs
  show_int_def show_nat.simps line_terminator_def failure_message_def
  demo_env_def demo_stream_def second_stream_def
  initial_world_def initial_session_def Let_def

lemmas world_defs =
  first_preview_def second_preview_def first_awaiting_def second_awaiting_def
  first_result_def first_request_def second_request_def

lemmas trace_defs =
  second_upload_late_def second_upload_pending_def second_photo_taken_def
  first_photo_done_def first_upload_done_def

lemma first_result_reachable:
  "run demo_env first_upload_done initial_world = Some first_result"
  by (simp add: first_upload_done_def world_defs eval_defs)

lemma second_preview_reachable:
  "run demo_env second_photo_taken initial_world = Some second_preview"
  by (simp add: second_photo_taken_def first_photo_done_def first_upload_done_def
      world_defs eval_defs)

subsection \<open>Retake\<close>

text \<open>
  C5. Whatever the session, \<^verbatim>\<open>retakePicture\<close> leaves \<open>capturedImage\<close> and
  \<open>selectedFilter\<close> unset and the state in Camera.
\<close>

theorem retakePicture_clears:
  "capturedImage (session (retakePicture w)) = None \<and>
   selectedFilter (session (retakePicture w)) = None \<and>
   appState (session (retakePicture w)) = Camera"
  by (simp add: retakePicture_def setter_defs)

subsection \<open>Capture\<close>

text \<open>
  C6 as stated fails: with the video element mounted and no stream bound to it yet, a
  world reached by mounting the component, \<^verbatim>\<open>takePicture\<close> is not a no-op. It sizes the
  canvas to 0 by 0, stores the data URL of that empty canvas and moves to Preview.
\<close>

theorem unbound_video_is_captured:
  "run demo_env [Mount_Canvas True, Mount_Video, Effect_Run] initial_world =
     Some camera_pending \<and>
   videoRef camera_pending = Some \<lparr>srcObject = None\<rparr> \<and>
   session (takePicture demo_env camera_pending) =
     \<lparr>appState = Preview, capturedImage = Some ''data:,'', selectedFilter = None,
      processedImage = None, isUploading = False, error = None\<rparr> \<and>
   canvasRef (takePicture demo_env camera_pending) =
     Some \<lparr>cwidth = 0, cheight = 0, pixels = [], context2d = True\<rparr>"
  by (simp add: camera_pending_def eval_defs)

text \<open>
  C6, amended. When a video element with a stream of \<open>width\<close> by \<open>height\<close> is mounted
  and the canvas gives a 2d context, \<^verbatim>\<open>takePicture\<close> sizes the canvas to the stream, draws
  the frame, stores the PNG data URL of that canvas as \<open>capturedImage\<close> and moves to
  Preview; this holds in any state, Camera included. The operation is a no-op exactly
  under the guards it has: when \<^verbatim>\<open>videoRef.current\<close> or \<^verbatim>\<open>canvasRef.current\<close> is null
  nothing changes at all, and when the canvas gives no context the session is unchanged.
\<close>

theorem takePicture_captures:
  "(\<forall>video stream canvas.
      videoRef w = Some video \<and> srcObject video = Some stream \<and>
      canvasRef w = Some canvas \<and> context2d canvas \<longrightarrow>
        canvasRef (takePicture e w) =
          Some (canvas\<lparr>cwidth := width stream, cheight := height stream, pixels := frame stream\<rparr>) \<and>
        capturedImage (session (takePicture e w)) =
          Some (toDataURL e (canvas\<lparr>cwidth := width stream, cheight := height stream,
                                     pixels := frame stream\<rparr>)) \<and>
        appState (session (takePicture e w)) = Preview) \<and>
   (videoRef w = None \<or> canvasRef w = None \<longrightarrow> takePicture e w = w) \<and>
   (\<forall>canvas. canvasRef w = Some canvas \<and> \<not> context2d canvas \<longrightarrow>
      session (takePicture e w) = session w)"
  by (auto simp: takePicture_def videoWidth_def videoHeight_def drawImage_def setter_defs Let_def
      split: option.splits)

theorem takePicture_captures_witness:
  "videoRef camera_ready = Some \<lparr>srcObject = Some demo_stream\<rparr> \<and>
   canvasRef (takePicture demo_env camera_ready) =
     Some \<lparr>cwidth = 640, cheight = 480, pixels = [1, 2, 3], context2d = True\<rparr> \<and>
   capturedImage (session (takePicture demo_env camera_ready)) =
     Some ''data:image/png;base64,iVBORw0KGgo='' \<and>
   appState (session (takePicture demo_env camera_ready)) = Preview \<and>
   videoRef initial_world = None \<and>
   takePicture demo_env initial_world = initial_world \<and>
   canvasRef no_context =
     Some \<lparr>cwidth = 300, cheight = 150, pixels = [], context2d = False\<rparr> \<and>
   session (takePicture demo_env no_context) = session no_context"
proof -
  let ?canvas = "\<lparr>cwidth = 300, cheight = 150, pixels = [], context2d = True\<rparr>"
  let ?blocked = "\<lparr>cwidth = 300, cheight = 150, pixels = [], context2d = False\<rparr>"
  have ready:
    "videoRef camera_ready = Some \<lparr>srcObject = Some demo_stream\<rparr> \<and>
     srcObject \<lparr>srcObject = Some demo_stream\<rparr> = Some demo_stream \<and>
     canvasRef camera_ready = Some ?canvas \<and> context2d ?canvas"
    by (simp add: camera_ready_def)
  have unmounted: "videoRef initial_world = None"
    by (simp add: initial_world_def)
  have blocked: "canvasRef no_context = Some ?blocked \<and> \<not> context2d ?blocked"
    by (simp add: no_context_def)
  from ready takePicture_captures [of camera_ready demo_env]
  have "canvasRef (takePicture demo_env camera_ready) =
          Some (?canvas\<lparr>cwidth := width demo_stream, cheight := height demo_stream,
                        pixels := frame demo_stream\<rparr>) \<and>
        capturedImage (session (takePicture demo_env camera_ready)) =
          Some (toDataURL demo_env
                 (?canvas\<lparr>cwidth := width demo_stream, cheight := height demo_stream,
                           pixels := frame demo_stream\<rparr>)) \<and>
        appState (session (takePicture demo_env camera_ready)) = Preview"
    by blast
  then have captured:
    "canvasRef (takePicture demo_env camera_ready) =
       Some \<lparr>cwidth = 640, cheight = 480, pixels = [1, 2, 3], context2d = True\<rparr> \<and>
     capturedImage (session (takePicture demo_env camera_ready)) =
       Some ''data:image/png;base64,iVBORw0KGgo='' \<and>
     appState (session (takePicture demo_env camera_ready)) = Preview"
    by (simp add: demo_stream_def demo_env_def)
  from unmounted takePicture_captures [of initial_world demo_env]
  have noop: "takePicture demo_env initial_world = initial_world"
    by blast
  from blocked takePicture_captures [of no_context demo_env]
  have same: "session (takePicture demo_env no_context) = session no_context"
    by blast
  from ready captured unmounted noop blocked same show ?thesis
    by blast
qed

subsection \<open>Camera acquisition\<close>

text \<open>
  C9. When \<^verbatim>\<open>getUserMedia\<close> rejects while the state is Camera, \<^verbatim>\<open>startCamera\<close> only
  writes to the console: the session is unchanged, so the state is still Camera and
  \<open>error\<close> is what it was (unset if it was unset), and the screen is still the camera
  view, which shows no message.
\<close>

theorem camera_failure_only_logged:
  assumes "appState (session w) = Camera"
  shows "session (startCamera_resume (Inl err) w) = session w \<and>
         appState (session (startCamera_resume (Inl err) w)) = Camera \<and>
         error (session (startCamera_resume (Inl err) w)) = error (session w) \<and>
         render (session (startCamera_resume (Inl err) w)) = CameraView \<and>
         console (startCamera_resume (Inl err) w) =
           console w @ [(''Error accessing camera:'', err)]"
  using assms by (simp add: startCamera_resume_def console_error_def render_def)

theorem camera_failure_only_logged_witness:
  "appState (session initial_world) = Camera \<and>
   error (session (startCamera_resume (Inl NotAllowedError) initial_world)) = None \<and>
   appState (session (startCamera_resume (Inl NotAllowedError) initial_world)) = Camera \<and>
   render (session (startCamera_resume (Inl NotAllowedError) initial_world)) = CameraView \<and>
   console (startCamera_resume (Inl NotAllowedError) initial_world) =
     [(''Error accessing camera:'', NotAllowedError)]"
proof -
  have camera: "appState (session initial_world) = Camera"
    by (simp add: initial_world_def initial_session_def)
  have before: "error (session initial_world) = None \<and> console initial_world = []"
    by (simp add: initial_world_def initial_session_def)
  note logged = camera_failure_only_logged [OF camera, of NotAllowedError]
  from logged have
    "error (session (startCamera_resume (Inl NotAllowedError) initial_world)) =
       error (session initial_world)"
    "appState (session (startCamera_resume (Inl NotAllowedError) initial_world)) = Camera"
    "render (session (startCamera_resume (Inl NotAllowedError) initial_world)) = CameraView"
    "console (startCamera_resume (Inl NotAllowedError) initial_world) =
       console initial_world @ [(''Error accessing camera:'', NotAllowedError)]"
    by blast+
  with camera before show ?thesis by simp
qed

text \<open>
  The cleanup stops every track of the stream it finds bound to the mounted video
  element.
\<close>

lemma stopped_fold_stop: "stopped (fold stop_track ts w) = set ts \<union> stopped w"
  by (induction ts arbitrary: w) (auto simp: stop_track_def)

lemma cameraCleanup_stops_bound_stream:
  "videoRef w = Some video \<Longrightarrow> srcObject video = Some stream \<Longrightarrow>
   stopped (cameraCleanup w) = set (tracks stream) \<union> stopped w"
  by (simp add: cameraCleanup_def stopped_fold_stop)

text \<open>
  C8 asks that every track of an acquired stream is stopped on leaving Camera, and that
  at most one stream is ever active. The cleanup looks for the stream in
  \<^verbatim>\<open>videoRef.current.srcObject\<close>, so a stream that \<^verbatim>\<open>getUserMedia\<close> hands out after the
  cleanup has run is never stopped. With the shutter pressed while the request is
  pending, the session is in Preview and track 7 is live; after mount, unmount and mount
  again, the tracks 7 and 8 of two streams are live.
\<close>

theorem stream_left_running:
  "map_option session (run demo_env early_shutter initial_world) =
     Some \<lparr>appState = Preview, capturedImage = Some ''data:,'', selectedFilter = None,
           processedImage = None, isUploading = False, error = None\<rparr> \<and>
   map_option live_tracks (run demo_env early_shutter initial_world) = Some [7] \<and>
   map_option live_tracks (run demo_env remount initial_world) = Some [7, 8]"
  by (simp add: early_shutter_def remount_def live_tracks_def eval_defs)

subsection \<open>Select a filter and upload\<close>

text \<open>
  C7. Two runs of \<^verbatim>\<open>applyFilter\<close> from the same world, at the same time and with the
  same answer of the storage client, that differ only in the filter chosen, make the
  same calls to \<^verbatim>\<open>upload\<close> (bucket, path, file and options) and leave the same
  \<open>processedImage\<close>, \<open>error\<close> and state.
\<close>

theorem filter_choice_no_effect:
  "uploads (promise_world (applyFilter e f1 now outcome w)) =
     uploads (promise_world (applyFilter e f2 now outcome w)) \<and>
   processedImage (session (promise_world (applyFilter e f1 now outcome w))) =
     processedImage (session (promise_world (applyFilter e f2 now outcome w))) \<and>
   error (session (promise_world (applyFilter e f1 now outcome w))) =
     error (session (promise_world (applyFilter e f2 now outcome w))) \<and>
   appState (session (promise_world (applyFilter e f1 now outcome w))) =
     appState (session (promise_world (applyFilter e f2 now outcome w)))"
  by (simp add: applyFilter_def applyFilter_begin_def applyFilter_resume_def
      applyFilter_try_result_def applyFilter_catch_def setter_defs Let_def
      split: sum.splits upload_outcome.splits)

text \<open>
  C10. The promise of \<^verbatim>\<open>applyFilter\<close> is always fulfilled, never rejected. With
  \<open>capturedImage\<close> unset the decoding raises a \<^verbatim>\<open>TypeError\<close>; and whenever the
  \<^verbatim>\<open>try\<close> block raises, in decoding, from the upload or in resolving the URL, the run
  ends with the failure message in \<open>error\<close> and the state in Preview.
\<close>

theorem applyFilter_never_rejects:
  "(\<exists>w'. applyFilter e filterId now outcome w = Fulfilled w') \<and>
   (capturedImage (session w) = None \<longrightarrow>
      applyFilter_raises e now outcome w = Some TypeError) \<and>
   (\<forall>err. applyFilter_raises e now outcome w = Some err \<longrightarrow>
      error (session (promise_world (applyFilter e filterId now outcome w))) =
        Some failure_message \<and>
      appState (session (promise_world (applyFilter e filterId now outcome w))) = Preview)"
  by (auto simp: applyFilter_def applyFilter_begin_def applyFilter_resume_def
      applyFilter_raises_def applyFilter_try_upload_def dataURLtoFile_def
      applyFilter_try_result_def session_catch setter_defs Let_def
      split: sum.splits upload_outcome.splits)

theorem applyFilter_never_rejects_witness:
  "capturedImage (session initial_world) = None \<and>
   applyFilter_raises demo_env 5 UploadOk initial_world = Some TypeError \<and>
   (\<exists>w'. applyFilter demo_env 1 5 UploadOk initial_world = Fulfilled w') \<and>
   error (session (promise_world (applyFilter demo_env 1 5 UploadOk initial_world))) =
     Some failure_message \<and>
   appState (session (promise_world (applyFilter demo_env 1 5 UploadOk initial_world))) = Preview"
proof -
  have unset: "capturedImage (session initial_world) = None"
    by (simp add: initial_world_def initial_session_def)
  note never = applyFilter_never_rejects [of demo_env 1 5 UploadOk initial_world]
  from never unset
  have raised: "applyFilter_raises demo_env 5 UploadOk initial_world = Some TypeError"
    by blast
  from never raised unset show ?thesis by blast
qed

text \<open>
  C4 as stated fails: the upload of the second photo succeeds after the upload of the
  third has failed. Before it settles the session is in Preview with the failure
  message; the run then sets \<open>processedImage\<close> to the URL of \<^verbatim>\<open>originals/photo-6.png\<close>
  and leaves \<open>error\<close> set.
\<close>

theorem late_success_keeps_error:
  "map_option session (run demo_env second_upload_pending initial_world) =
     Some \<lparr>appState = Preview,
           capturedImage = Some ''data:image/png;base64,iVBORw0KGgo='',
           selectedFilter = Some 3,
           processedImage = Some ''https://cdn.example/photos/originals/photo-5.png'',
           isUploading = False,
           error = Some ''Failed to upload image. Please try again.''\<rparr> \<and>
   map_option inflight (run demo_env second_upload_pending initial_world) =
     Some [second_request] \<and>
   map_option session (run demo_env second_upload_late initial_world) =
     Some \<lparr>appState = Preview,
           capturedImage = Some ''data:image/png;base64,iVBORw0KGgo='',
           selectedFilter = Some 3,
           processedImage = Some ''https://cdn.example/photos/originals/photo-6.png'',
           isUploading = False,
           error = Some ''Failed to upload image. Please try again.''\<rparr>"
  by (simp add: trace_defs world_defs eval_defs)

text \<open>
  C4, amended. When \<^verbatim>\<open>applyFilter\<close> reaches the call to \<^verbatim>\<open>upload\<close>, the call is for the
  path \<^verbatim>\<open>originals/photo-<now>.png\<close> and the decoded file, and \<open>error\<close> is unset at that
  point. When the upload succeeds and the public URL of that same path is resolved, the
  run sets \<open>processedImage\<close> to that URL, in whatever world the upload settles, and
  leaves \<open>error\<close> and the state as it finds them there. So in a run that nothing
  interleaves with, \<open>error\<close> is unset and the state is Processing at the end.
\<close>

theorem successful_upload_result:
  assumes "applyFilter_begin e filterId now w = Awaiting w1 req"
      and "getPublicUrl e (BUCKET_ID e) (path req) = Inr url"
  shows "path req = ''originals/photo-'' @ show_int now @ ''.png'' \<and>
         bucket req = BUCKET_ID e \<and>
         dataURLtoFile (atob e) (capturedImage (session w))
           (''photo-'' @ show_int now @ ''.png'') = Inr (payload req) \<and>
         uploads w1 = uploads w @ [req] \<and>
         error (session w1) = None \<and>
         appState (session w1) = Processing \<and>
         (\<forall>w2. applyFilter_resume e req UploadOk w2 =
                 Fulfilled (setIsUploading False (setProcessedImage (Some url) w2)) \<and>
               processedImage (session (promise_world (applyFilter_resume e req UploadOk w2))) =
                 Some url \<and>
               error (session (promise_world (applyFilter_resume e req UploadOk w2))) =
                 error (session w2) \<and>
               appState (session (promise_world (applyFilter_resume e req UploadOk w2))) =
                 appState (session w2)) \<and>
         uploads (promise_world (applyFilter e filterId now UploadOk w)) = uploads w @ [req] \<and>
         processedImage (session (promise_world (applyFilter e filterId now UploadOk w))) =
           Some url \<and>
         error (session (promise_world (applyFilter e filterId now UploadOk w))) = None \<and>
         appState (session (promise_world (applyFilter e filterId now UploadOk w))) =
           Processing"
proof -
  let ?fn = "''photo-'' @ show_int now @ ''.png''"
  from assms(1) obtain imageFile where
    dec: "dataURLtoFile (atob e) (capturedImage (session w)) ?fn = Inr imageFile"
    by (auto simp: applyFilter_begin_def applyFilter_try_upload_def Let_def split: sum.splits)
  then have nm: "name imageFile = ?fn"
    by (simp add: dataURLtoFile_Inr)
  from assms(1) dec nm have req:
    "req = \<lparr>bucket = BUCKET_ID e, path = ''originals/photo-'' @ show_int now @ ''.png'',
            payload = imageFile, contentType = ''image/png'', cacheControl = ''3600''\<rparr>"
    by (auto simp: applyFilter_begin_def applyFilter_try_upload_def Let_def)
  from assms(1) dec have w1:
    "w1 = (setIsUploading True
            (setError None (setAppState Processing (setSelectedFilter (Some filterId) w))))
          \<lparr>uploads := uploads w @ [req]\<rparr>"
    by (auto simp: applyFilter_begin_def applyFilter_try_upload_def Let_def setter_defs)
  from assms(2) req nm have url:
    "getPublicUrl e (BUCKET_ID e) (''originals/'' @ name (payload req)) = Inr url"
    by simp
  have resume: "applyFilter_resume e req UploadOk w2 =
      Fulfilled (setIsUploading False (setProcessedImage (Some url) w2))" for w2
    using url by (simp add: applyFilter_resume_def applyFilter_try_result_def)
  have whole: "applyFilter e filterId now UploadOk w = applyFilter_resume e req UploadOk w1"
    using assms(1) by (simp add: applyFilter_def)
  have call: "path req = ''originals/photo-'' @ show_int now @ ''.png''"
    "bucket req = BUCKET_ID e"
    "dataURLtoFile (atob e) (capturedImage (session w)) ?fn = Inr (payload req)"
    using req dec by simp_all
  have at_call: "uploads w1 = uploads w @ [req]" "error (session w1) = None"
    "appState (session w1) = Processing"
    by (simp_all add: w1 setter_defs)
  have settled:
    "processedImage (session (promise_world (applyFilter_resume e req UploadOk w2))) = Some url"
    "error (session (promise_world (applyFilter_resume e req UploadOk w2))) = error (session w2)"
    "appState (session (promise_world (applyFilter_resume e req UploadOk w2))) =
       appState (session w2)"
    "uploads (promise_world (applyFilter_resume e req UploadOk w2)) = uploads w2" for w2
    by (simp_all add: resume setter_defs)
  from call at_call resume settled show ?thesis
    unfolding whole by simp
qed

theorem successful_upload_result_witness:
  "applyFilter_begin demo_env 1 5 first_preview = Awaiting first_awaiting first_request \<and>
   getPublicUrl demo_env (BUCKET_ID demo_env) (path first_request) =
     Inr ''https://cdn.example/photos/originals/photo-5.png'' \<and>
   path first_request = ''originals/photo-'' @ show_int 5 @ ''.png'' \<and>
   uploads first_awaiting = uploads first_preview @ [first_request] \<and>
   error (session first_awaiting) = None \<and>
   processedImage (session (promise_world
     (applyFilter_resume demo_env first_request UploadOk first_preview))) =
     Some ''https://cdn.example/photos/originals/photo-5.png'' \<and>
   appState (session (promise_world
     (applyFilter_resume demo_env first_request UploadOk first_preview))) =
     appState (session first_preview) \<and>
   processedImage (session (promise_world (applyFilter demo_env 1 5 UploadOk first_preview))) =
     Some ''https://cdn.example/photos/originals/photo-5.png'' \<and>
   error (session (promise_world (applyFilter demo_env 1 5 UploadOk first_preview))) = None \<and>
   appState (session (promise_world (applyFilter demo_env 1 5 UploadOk first_preview))) =
     Processing"
proof -
  have began:
    "applyFilter_begin demo_env 1 5 first_preview = Awaiting first_awaiting first_request"
    by (simp add: world_defs eval_defs)
  have resolved:
    "getPublicUrl demo_env (BUCKET_ID demo_env) (path first_request) =
       Inr ''https://cdn.example/photos/originals/photo-5.png''"
    by (simp add: first_request_def demo_env_def)
  from successful_upload_result [OF began resolved] began resolved show ?thesis
    by (simp add: setter_defs)
qed

text \<open>
  C3 as stated fails: in the reachable world \<open>second_preview\<close> the result of the first
  photo is still set, and a run of \<^verbatim>\<open>applyFilter\<close> whose upload fails ends in Preview with
  the failure message and with that result still in \<open>processedImage\<close>.
\<close>

theorem failed_upload_keeps_old_result:
  "run demo_env second_photo_taken initial_world = Some second_preview \<and>
   applyFilter_raises demo_env 6 (UploadError (StorageError ''quota'')) second_preview =
     Some (StorageError ''quota'') \<and>
   session (promise_world
     (applyFilter demo_env 2 6 (UploadError (StorageError ''quota'')) second_preview)) =
     \<lparr>appState = Preview,
      capturedImage = Some ''data:image/png;base64,iVBORw0KGgo='',
      selectedFilter = Some 2,
      processedImage = Some ''https://cdn.example/photos/originals/photo-5.png'',
      isUploading = False,
      error = Some ''Failed to upload image. Please try again.''\<rparr>"
proof -
  have "session (promise_world
          (applyFilter demo_env 2 6 (UploadError (StorageError ''quota'')) second_preview)) =
        \<lparr>appState = Preview,
         capturedImage = Some ''data:image/png;base64,iVBORw0KGgo='',
         selectedFilter = Some 2,
         processedImage = Some ''https://cdn.example/photos/originals/photo-5.png'',
         isUploading = False,
         error = Some ''Failed to upload image. Please try again.''\<rparr>"
    by (simp add: world_defs eval_defs)
  moreover
  have "applyFilter_raises demo_env 6 (UploadError (StorageError ''quota'')) second_preview =
          Some (StorageError ''quota'')"
    by (simp add: world_defs eval_defs)
  ultimately show ?thesis
    using second_preview_reachable by simp
qed

text \<open>
  C3, amended. Whenever the \<^verbatim>\<open>try\<close> block of a run raises, in decoding, from the upload
  or in resolving the URL, the run ends with \<open>error\<close> set to the failure message and the
  state in Preview, and with \<open>processedImage\<close> unset provided it was unset when the run
  began: a failed run never sets it.
\<close>

theorem failed_upload_sets_error:
  assumes "applyFilter_raises e now outcome w = Some err"
  shows "error (session (promise_world (applyFilter e filterId now outcome w))) =
           Some failure_message \<and>
         appState (session (promise_world (applyFilter e filterId now outcome w))) = Preview \<and>
         (processedImage (session w) = None \<longrightarrow>
            processedImage (session (promise_world (applyFilter e filterId now outcome w))) =
              None)"
  using assms
  by (auto simp: applyFilter_def applyFilter_begin_def applyFilter_resume_def
      applyFilter_raises_def applyFilter_try_result_def session_catch setter_defs Let_def
      split: sum.splits upload_outcome.splits)

theorem failed_upload_sets_error_witness:
  "applyFilter_raises demo_env 5 (UploadRejected (StorageError ''offline'')) first_preview =
     Some (StorageError ''offline'') \<and>
   processedImage (session first_preview) = None \<and>
   error (session (promise_world
     (applyFilter demo_env 3 5 (UploadRejected (StorageError ''offline'')) first_preview))) =
     Some failure_message \<and>
   appState (session (promise_world
     (applyFilter demo_env 3 5 (UploadRejected (StorageError ''offline'')) first_preview))) =
     Preview \<and>
   processedImage (session (promise_world
     (applyFilter demo_env 3 5 (UploadRejected (StorageError ''offline'')) first_preview))) =
     None"
proof -
  have raised:
    "applyFilter_raises demo_env 5 (UploadRejected (StorageError ''offline'')) first_preview =
       Some (StorageError ''offline'')"
    by (simp add: world_defs eval_defs)
  have unset: "processedImage (session first_preview) = None"
    by (simp add: first_preview_def)
  from failed_upload_sets_error [OF raised, of 3] raised unset show ?thesis
    by simp
qed

text \<open>
  C2 as stated fails: in the reachable world \<open>second_preview\<close>, in Preview with a
  captured image, \<^verbatim>\<open>applyFilter\<close> reaches the call to \<^verbatim>\<open>upload\<close> in the world
  \<open>second_awaiting\<close>, where the result of the first photo is still set.
\<close>

theorem select_filter_keeps_old_result:
  "run demo_env second_photo_taken initial_world = Some second_preview \<and>
   appState (session second_preview) = Preview \<and>
   capturedImage (session second_preview) = Some ''data:image/png;base64,iVBORw0KGgo='' \<and>
   applyFilter_begin demo_env 2 6 second_preview = Awaiting second_awaiting second_request \<and>
   processedImage (session second_awaiting) =
     Some ''https://cdn.example/photos/originals/photo-5.png''"
proof -
  have "applyFilter_begin demo_env 2 6 second_preview =
          Awaiting second_awaiting second_request"
    by (simp add: world_defs eval_defs)
  moreover
  have "appState (session second_preview) = Preview \<and>
        capturedImage (session second_preview) =
          Some ''data:image/png;base64,iVBORw0KGgo='' \<and>
        processedImage (session second_awaiting) =
          Some ''https://cdn.example/photos/originals/photo-5.png''"
    by (simp add: world_defs)
  ultimately show ?thesis
    using second_preview_reachable by simp
qed

text \<open>
  C2, amended. When \<^verbatim>\<open>applyFilter\<close> reaches the call to \<^verbatim>\<open>upload\<close>, \<open>error\<close> is unset,
  the filter is recorded and the state is Processing, whatever \<open>error\<close> was before;
  \<open>processedImage\<close> is unset at that point provided it was unset when the filter was
  selected.
\<close>

theorem select_filter_clears_error:
  assumes "applyFilter_begin e filterId now w = Awaiting w' req"
  shows "error (session w') = None \<and>
         selectedFilter (session w') = Some filterId \<and>
         appState (session w') = Processing \<and>
         (processedImage (session w) = None \<longrightarrow> processedImage (session w') = None) \<and>
         uploads w' = uploads w @ [req]"
  using assms
  by (auto simp: applyFilter_begin_def setter_defs Let_def split: sum.splits)

theorem select_filter_clears_error_witness:
  "applyFilter_begin demo_env 1 5 (setError (Some failure_message) first_preview) =
     Awaiting first_awaiting first_request \<and>
   error (session (setError (Some failure_message) first_preview)) = Some failure_message \<and>
   processedImage (session (setError (Some failure_message) first_preview)) = None \<and>
   error (session first_awaiting) = None \<and>
   selectedFilter (session first_awaiting) = Some 1 \<and>
   appState (session first_awaiting) = Processing \<and>
   processedImage (session first_awaiting) = None"
proof -
  have began:
    "applyFilter_begin demo_env 1 5 (setError (Some failure_message) first_preview) =
       Awaiting first_awaiting first_request"
    by (simp add: world_defs eval_defs)
  have before:
    "error (session (setError (Some failure_message) first_preview)) = Some failure_message \<and>
     processedImage (session (setError (Some failure_message) first_preview)) = None"
    by (simp add: first_preview_def setError_def)
  from select_filter_clears_error [OF began] began before show ?thesis
    by simp
qed

subsection \<open>Reachable sessions\<close>

text \<open>
  C1 as stated fails: after a first photo is uploaded and the user asks for a new one
  from the result screen, the session is in Camera and \<open>processedImage\<close> is still set.
\<close>

theorem result_outlives_processing:
  "map_option session (run demo_env first_photo_done initial_world) =
     Some \<lparr>appState = Camera, capturedImage = None, selectedFilter = None,
           processedImage = Some ''https://cdn.example/photos/originals/photo-5.png'',
           isUploading = False, error = None\<rparr>"
  by (simp add: first_photo_done_def first_upload_done_def eval_defs)

text \<open>What a screen says about the session it renders.\<close>

lemma render_CameraView: "render s = CameraView \<Longrightarrow> appState s = Camera"
  by (auto simp: render_def render_processing_def Let_def
      split: app_state.splits option.splits if_splits)

lemma render_PreviewView: "render s = PreviewView img \<Longrightarrow> appState s = Preview"
  by (auto simp: render_def render_processing_def Let_def
      split: app_state.splits option.splits if_splits)

lemma render_ErrorView:
  "render s = ErrorView msg \<Longrightarrow> appState s = Processing \<and> error s = Some msg"
  by (auto simp: render_def render_processing_def Let_def
      split: app_state.splits option.splits if_splits)

text \<open>Every handler but the result screen's \<^verbatim>\<open>retakePicture\<close> keeps \<open>result_fresh\<close>.\<close>

lemma fresh_takePicture:
  "result_fresh w \<Longrightarrow> appState (session w) = Camera \<Longrightarrow> result_fresh (takePicture e w)"
  by (auto simp: result_fresh_def takePicture_def setter_defs Let_def split: option.splits)

lemma fresh_retakePicture:
  "result_fresh w \<Longrightarrow> appState (session w) = Preview \<Longrightarrow> result_fresh (retakePicture w)"
  by (auto simp: result_fresh_def retakePicture_def setter_defs)

lemma fresh_click_filter:
  "result_fresh w \<Longrightarrow> appState (session w) = Preview \<Longrightarrow>
   result_fresh (click_filter e f now w)"
  by (auto simp: result_fresh_def click_filter_def applyFilter_begin_def session_catch
      applyFilter_catch_def setter_defs Let_def split: sum.splits)

lemma fresh_upload_settles:
  assumes "result_fresh w" and "k < length (inflight w)"
  shows "result_fresh (upload_settles e k outcome w)"
proof -
  from assms have one: "length (inflight w) = 1" and k: "k = 0"
    and st: "appState (session w) = Processing" "error (session w) = None"
            "processedImage (session w) = None"
    by (auto simp: result_fresh_def)
  then show ?thesis
    by (auto simp: result_fresh_def upload_settles_def applyFilter_resume_def
        applyFilter_try_result_def applyFilter_catch_def setter_defs
        split: sum.splits upload_outcome.splits)
qed

lemma fresh_tryAgain:
  "result_fresh w \<Longrightarrow> error (session w) = Some msg \<Longrightarrow> result_fresh (setAppState Preview w)"
  by (auto simp: result_fresh_def setter_defs)

lemma fresh_startCamera_resume:
  "result_fresh w \<Longrightarrow> result_fresh (startCamera_resume r (w\<lparr>cameraRequests := n\<rparr>))"
  by (auto simp: result_fresh_def startCamera_resume_def console_error_def Let_def
      split: sum.splits option.splits)

lemma session_fold_stop:
  "session (fold stop_track ts w) = session w \<and>
   inflight (fold stop_track ts w) = inflight w"
  by (induction ts arbitrary: w) (simp_all add: stop_track_def)

lemma fresh_cameraCleanup: "result_fresh w \<Longrightarrow> result_fresh (cameraCleanup w)"
  by (auto simp: result_fresh_def cameraCleanup_def session_fold_stop split: option.splits)

lemma fresh_cameraEffect: "result_fresh w \<Longrightarrow> result_fresh (cameraEffect w)"
  by (auto simp: result_fresh_def cameraEffect_def)

lemma fresh_step:
  assumes "result_fresh w" and "step e ev w = Some w'" and "ev \<noteq> Click_TakeNewPhoto"
  shows "result_fresh w'"
proof (cases ev)
  case Click_Shutter
  with assms show ?thesis
    by (auto split: view.splits intro: fresh_takePicture render_CameraView)
next
  case Click_Retake
  with assms show ?thesis
    by (auto split: view.splits intro: fresh_retakePicture render_PreviewView)
next
  case (Click_Filter f now)
  with assms show ?thesis
    by (auto split: view.splits if_splits intro: fresh_click_filter render_PreviewView)
next
  case Click_TryAgain
  with assms show ?thesis
    by (auto split: view.splits dest: render_ErrorView intro: fresh_tryAgain)
next
  case Click_TakeNewPhoto
  with assms show ?thesis by simp
next
  case Click_Download
  with assms show ?thesis by (auto split: view.splits)
next
  case (Upload_Settles k outcome)
  with assms show ?thesis by (auto split: if_splits intro: fresh_upload_settles)
next
  case (Camera_Settles r)
  with assms show ?thesis by (auto split: if_splits intro: fresh_startCamera_resume)
next
  case Mount_Video
  with assms show ?thesis by (auto simp: result_fresh_def)
next
  case Unmount_Video
  with assms show ?thesis by (auto simp: result_fresh_def)
next
  case (Mount_Canvas ctx)
  with assms show ?thesis by (auto simp: result_fresh_def)
next
  case Effect_Run
  with assms show ?thesis by (auto intro: fresh_cameraEffect)
next
  case Effect_Cleanup
  with assms show ?thesis by (auto intro: fresh_cameraCleanup)
qed

lemma fresh_run:
  "result_fresh w \<Longrightarrow> run e evs w = Some w' \<Longrightarrow> Click_TakeNewPhoto \<notin> set evs \<Longrightarrow>
   result_fresh w'"
proof (induction evs arbitrary: w)
  case Nil
  then show ?case by simp
next
  case (Cons ev evs)
  then obtain w1 where s: "step e ev w = Some w1" and r: "run e evs w1 = Some w'"
    by (auto split: option.splits)
  from Cons.prems(1) s Cons.prems(3) have "result_fresh w1"
    by (auto intro: fresh_step)
  with r Cons show ?case by auto
qed

lemma fresh_initial: "result_fresh initial_world"
  by (simp add: result_fresh_def initial_world_def initial_session_def)

text \<open>
  C1, amended. In every world reached from the initial one by events among which the
  result screen's Take New Photo does not occur, a set \<open>processedImage\<close> comes with the
  state Processing and an unset \<open>error\<close>.
\<close>

theorem result_only_in_processing:
  assumes "run e evs initial_world = Some w"
      and "Click_TakeNewPhoto \<notin> set evs"
      and "processedImage (session w) \<noteq> None"
  shows "appState (session w) = Processing \<and> error (session w) = None"
proof -
  from fresh_initial assms(1,2) have "result_fresh w" by (rule fresh_run)
  with assms(3) show ?thesis by (auto simp: result_fresh_def)
qed

theorem result_only_in_processing_witness:
  "run demo_env first_upload_done initial_world = Some first_result \<and>
   Click_TakeNewPhoto \<notin> set first_upload_done \<and>
   processedImage (session first_result) \<noteq> None \<and>
   appState (session first_result) = Processing \<and> error (session first_result) = None"
proof -
  have r: "run demo_env first_upload_done initial_world = Some first_result"
    by (rule first_result_reachable)
  have n: "Click_TakeNewPhoto \<notin> set first_upload_done"
    by (simp add: first_upload_done_def)
  have p: "processedImage (session first_result) \<noteq> None"
    by (simp add: first_result_def)
  from r n p result_only_in_processing [OF r n p] show ?thesis by blast
qed

end
